theory Spec2Isabelle
  imports Complex_Main
begin

section \<open>Values exchanged with the outside world\<close>

text \<open>
  A parsed JSON document, as Python's \<open>json\<close> module hands it to the program: \<open>None\<close>,
  booleans, numbers, strings, lists and dicts. A number is the rational it denotes: the
  program only compares numbers (\<open><\<close>, \<open>!=\<close>), and Python compares an \<open>int\<close> with a
  finite \<open>float\<close> exactly. A dict is the list of its items, keys distinct, read with
  \<open>map_of\<close>.
\<close>

datatype json =
    JNull
  | JBool bool
  | JNum rat
  | JStr string
  | JArr "json list"
  | JObj "(string \<times> json) list"

text \<open>The exceptions that the modelled code can raise or let through.\<close>

datatype error =
    AttributeError
  | TypeError
  | KeyError
  | MultipleValuesError
  | RequestException
  | ValidationError
  | ConnectionClosed

section \<open>solar\_api.py\<close>

text \<open>
  \<open>d.get(k, default)\<close>: a lookup with a default on a dict; on any other value there is no
  attribute \<open>get\<close> and Python raises \<open>AttributeError\<close>.
\<close>

definition dict_get :: "json \<Rightarrow> string \<Rightarrow> json \<Rightarrow> error + json" where
  "dict_get d k dflt =
     (case d of
        JObj kvs \<Rightarrow> Inr (case map_of kvs k of Some v \<Rightarrow> v | None \<Rightarrow> dflt)
      | _ \<Rightarrow> Inl AttributeError)"

text \<open>A chain \<open>d.get(k1, {}).get(k2, {})...\<close>, every step with the empty dict as default.\<close>

fun get_chain :: "json \<Rightarrow> string list \<Rightarrow> error + json" where
  "get_chain d [] = Inr d"
| "get_chain d (k # ks) =
     (case dict_get d k (JObj []) of
        Inl e \<Rightarrow> Inl e
      | Inr d' \<Rightarrow> get_chain d' ks)"

text \<open>
  \<open>read_power\<close>. Its argument is what \<open>requests.get(fronius_url).json()\<close> produced:
  \<open>None\<close> when the request or the decoding raised, the parsed body otherwise. The two
  \<open>print\<close> calls have no effect on the result and are left out; the unit is returned
  whatever it is.
\<close>

definition read_power :: "json option \<Rightarrow> error + json \<times> json" where
  "read_power response =
     (case response of
        None \<Rightarrow> Inl RequestException
      | Some stats \<Rightarrow>
         (case get_chain stats [''Body'', ''Data'', ''PAC'', ''Values''] of
            Inl e \<Rightarrow> Inl e
          | Inr vals \<Rightarrow>
             (case dict_get vals ''1'' (JNum 0) of
                Inl e \<Rightarrow> Inl e
              | Inr current_power \<Rightarrow>
                 (case get_chain stats [''Body'', ''Data'', ''PAC''] of
                    Inl e \<Rightarrow> Inl e
                  | Inr pac \<Rightarrow>
                     (case dict_get pac ''Unit'' (JStr []) of
                        Inl e \<Rightarrow> Inl e
                      | Inr current_power_unit \<Rightarrow>
                          Inr (current_power, current_power_unit))))))"

section \<open>server.py: the session and its outbound calls\<close>

text \<open>
  An outbound \<open>Call\<close> of the protocol library, and what passes over the websocket of a
  session: a call handed to \<open>_send\<close>, or a frame returned by \<open>recv\<close>.
\<close>

record call =
  unique_id :: string
  action :: string
  payload :: json

datatype event = Sent call | Received string

text \<open>
  The \<open>ChargePoint\<close> object: its identifier, the two attributes \<open>_last_profile_sent\<close>
  and \<open>_last_max_charge\<close>, and the traffic of its connection so far.
\<close>

record charge_point =
  cp_id :: string
  last_profile_sent :: int
  last_max_charge :: rat
  wire :: "event list"

text \<open>
  The constructor, with the class attributes \<open>_last_profile_sent = -1\<close> and
  \<open>_last_max_charge = 0\<close>.
\<close>

definition ChargePoint :: "string \<Rightarrow> charge_point" where
  "ChargePoint charge_point_id =
     \<lparr>cp_id = charge_point_id, last_profile_sent = - 1, last_max_charge = 0, wire = []\<rparr>"

text \<open>
  A statement of a coroutine either raises, leaving the object as it was at that moment,
  or completes with the object updated.
\<close>

type_synonym outcome = "error \<times> charge_point + charge_point"

definition and_then :: "outcome \<Rightarrow> (charge_point \<Rightarrow> outcome) \<Rightarrow> outcome" where
  "and_then r f = (case r of Inl x \<Rightarrow> Inl x | Inr s \<Rightarrow> f s)"

text \<open>
  The three functions of the \<open>ocpp\<close> package that \<open>send_payload\<close> calls. The package is
  not part of the repository, so they are parameters of the model.
\<close>

record lib =
  snake_to_camel_case :: "json \<Rightarrow> json"
  remove_nones :: "json \<Rightarrow> json"
  validate_payload :: "call \<Rightarrow> bool"

text \<open>
  The two payload dataclasses the server instantiates. \<open>ClearChargingProfilePayload()\<close>
  is built without arguments, so its four optional fields are \<open>None\<close>.
\<close>

datatype payload_object =
    ClearChargingProfilePayload
  | SetChargingProfilePayload int json

fun asdict :: "payload_object \<Rightarrow> json" where
  "asdict ClearChargingProfilePayload =
     JObj [(''id'', JNull), (''connector_id'', JNull),
           (''charging_profile_purpose'', JNull), (''stack_level'', JNull)]"
| "asdict (SetChargingProfilePayload connector_id cs_charging_profiles) =
     JObj [(''connector_id'', JNum (of_int connector_id)),
           (''cs_charging_profiles'', cs_charging_profiles)]"

fun class_name :: "payload_object \<Rightarrow> string" where
  "class_name ClearChargingProfilePayload = ''ClearChargingProfilePayload''"
| "class_name (SetChargingProfilePayload _ _) = ''SetChargingProfilePayload''"

text \<open>The \<open>Call\<close> that \<open>send_payload\<close> builds; \<open>name[:-7]\<close> drops the suffix \<open>Payload\<close>.\<close>

definition build_call :: "lib \<Rightarrow> string \<Rightarrow> payload_object \<Rightarrow> call" where
  "build_call L uid p =
     (let camel_case_payload = snake_to_camel_case L (asdict p)
      in \<lparr>unique_id = uid,
          action = take (length (class_name p) - 7) (class_name p),
          payload = remove_nones L camel_case_payload\<rparr>)"

text \<open>
  \<open>send_payload\<close>. \<open>uid\<close> is the value of \<open>_unique_id_generator()\<close>; \<open>delivered\<close> tells
  whether the websocket takes the frame (otherwise \<open>_send\<close> raises). \<open>validate_payload\<close>
  raises on a payload that does not fit the schema. Nothing is read from the connection.
\<close>

definition send_payload :: "lib \<Rightarrow> string \<Rightarrow> bool \<Rightarrow> payload_object \<Rightarrow> charge_point \<Rightarrow> outcome" where
  "send_payload L uid delivered p s =
     (let c = build_call L uid p
      in if \<not> validate_payload L c then Inl (ValidationError, s)
         else if \<not> delivered then Inl (ConnectionClosed, s)
         else Inr (s\<lparr>wire := wire s @ [Sent c]\<rparr>))"

definition clear_smart_charge_profile :: "lib \<Rightarrow> string \<Rightarrow> bool \<Rightarrow> charge_point \<Rightarrow> outcome" where
  "clear_smart_charge_profile L uid delivered s =
     send_payload L uid delivered ClearChargingProfilePayload s"

text \<open>The profile dict; \<open>now_iso\<close> is \<open>datetime.utcnow().isoformat()\<close>.\<close>

definition cs_charging_profiles :: "string \<Rightarrow> rat \<Rightarrow> json \<Rightarrow> json" where
  "cs_charging_profiles now_iso max_charge charge_unit =
     JObj [(''chargingProfileId'', JNum 2),
           (''stackLevel'', JNum 2),
           (''chargingProfilePurpose'', JStr ''ChargePointMaxProfile''),
           (''chargingProfileKind'', JStr ''Absolute''),
           (''chargingSchedule'',
              JObj [(''startSchedule'', JStr (now_iso @ ''Z'')),
                    (''chargingRateUnit'', charge_unit),
                    (''chargingSchedulePeriod'',
                       JArr [JObj [(''startPeriod'', JNum 0), (''limit'', JNum max_charge)]]),
                    (''minChargingRate'', JNum (1 / 10))])]"

definition set_smart_charge_profile ::
  "lib \<Rightarrow> string \<Rightarrow> bool \<Rightarrow> string \<Rightarrow> rat \<Rightarrow> json \<Rightarrow> charge_point \<Rightarrow> outcome" where
  "set_smart_charge_profile L uid delivered now_iso max_charge charge_unit s =
     send_payload L uid delivered
       (SetChargingProfilePayload 0 (cs_charging_profiles now_iso max_charge charge_unit)) s"

section \<open>server.py: the loop of \<open>start\<close>\<close>

text \<open>
  \<open>if max_charge < 240: max_charge = 240\<close>, on whatever \<open>read_power\<close> returned as the
  power. A number is compared; \<open>True\<close> and \<open>False\<close> are the integers 1 and 0 in Python;
  comparing anything else with an \<open>int\<close> raises \<open>TypeError\<close>.
\<close>

definition clamp_max_charge :: "json \<Rightarrow> error + rat" where
  "clamp_max_charge max_charge =
     (case max_charge of
        JNum x \<Rightarrow> Inr (if x < 240 then 240 else x)
      | JBool b \<Rightarrow> Inr (if (if b then 1 else 0) < (240::rat) then 240 else (if b then 1 else 0))
      | _ \<Rightarrow> Inl TypeError)"

text \<open>
  What the outside world answers during one pass of the loop: the two readings of
  \<open>datetime.now().minute\<close>, the inverter's response, the UTC time, the two unique ids,
  whether the websocket takes the clear and the set frame, the frame \<open>recv\<close> returns
  (\<open>None\<close> when the connection is gone and \<open>recv\<close> raises), and how the library's
  \<open>route_message\<close> ends on that frame (\<open>None\<close> when it returns, the exception when it
  raises).
\<close>

record env =
  minute_at_check :: int
  minute_at_mark :: int
  response :: "json option"
  utcnow :: string
  uid_clear :: string
  uid_set :: string
  clear_delivered :: bool
  set_delivered :: bool
  inbound :: "string option"
  routed :: "error option"

text \<open>The body of \<open>if self._last_profile_sent != datetime.now().minute\<close>.\<close>

definition evaluate :: "lib \<Rightarrow> env \<Rightarrow> charge_point \<Rightarrow> outcome" where
  "evaluate L e s =
     (case read_power (response e) of
        Inl x \<Rightarrow> Inl (x, s)
      | Inr (current_power, unit_power) \<Rightarrow>
         (case clamp_max_charge current_power of
            Inl x \<Rightarrow> Inl (x, s)
          | Inr max_charge \<Rightarrow>
              and_then
                (if max_charge \<noteq> last_max_charge s
                 then and_then (clear_smart_charge_profile L (uid_clear e) (clear_delivered e) s)
                   (\<lambda>s1. and_then
                      (set_smart_charge_profile L (uid_set e) (set_delivered e) (utcnow e)
                         max_charge unit_power s1)
                   (\<lambda>s2. Inr (s2\<lparr>last_max_charge := max_charge\<rparr>)))
                 else Inr s)
                (\<lambda>s3. Inr (s3\<lparr>last_profile_sent := minute_at_mark e\<rparr>))))"

text \<open>
  \<open>route_message\<close> belongs to the protocol library: it unpacks the frame, calls the
  handler registered for the action of a call and sends the answer. It leaves the two
  attributes of the session alone. It returns, or it raises out of \<open>start\<close> (on a frame
  it cannot unpack, or when the websocket does not take the answer); which of the two
  is an answer of the outside world.
\<close>

definition route_message :: "error option \<Rightarrow> string \<Rightarrow> charge_point \<Rightarrow> outcome" where
  "route_message ending message s = (case ending of None \<Rightarrow> Inr s | Some x \<Rightarrow> Inl (x, s))"

text \<open>
  One pass of the body of \<open>while True\<close>. A frame that \<open>recv\<close> returned is recorded as
  read, whatever \<open>route_message\<close> then does with it.
\<close>

definition start_step :: "lib \<Rightarrow> env \<Rightarrow> charge_point \<Rightarrow> outcome" where
  "start_step L e s =
     and_then
       (if last_profile_sent s \<noteq> minute_at_check e then evaluate L e s else Inr s)
       (\<lambda>s1. case inbound e of
                None \<Rightarrow> Inl (ConnectionClosed, s1)
              | Some message \<Rightarrow>
                  route_message (routed e) message (s1\<lparr>wire := wire s1 @ [Received message]\<rparr>))"

text \<open>
  \<open>start\<close>: the loop never ends by itself. It is run here on the answers of the outside
  world for finitely many passes; \<open>Inr\<close> is the session after them, still running, and
  \<open>Inl\<close> is the exception that left the loop, after which no further pass runs.
\<close>

fun start :: "lib \<Rightarrow> env list \<Rightarrow> charge_point \<Rightarrow> outcome" where
  "start L [] s = Inr s"
| "start L (e # es) s = and_then (start_step L e s) (start L es)"

text \<open>The two calls a pass builds, by name.\<close>

abbreviation clear_call :: "lib \<Rightarrow> env \<Rightarrow> call" where
  "clear_call L e \<equiv> build_call L (uid_clear e) ClearChargingProfilePayload"

abbreviation set_call :: "lib \<Rightarrow> env \<Rightarrow> rat \<Rightarrow> json \<Rightarrow> call" where
  "set_call L e c u \<equiv>
     build_call L (uid_set e)
       (SetChargingProfilePayload 0 (cs_charging_profiles (utcnow e) c u))"

text \<open>What a statement left behind: the exception, if it raised, and the object.\<close>

definition raised :: "outcome \<Rightarrow> error option" where
  "raised r = (case r of Inl x \<Rightarrow> Some (fst x) | Inr s \<Rightarrow> None)"

definition session_of :: "outcome \<Rightarrow> charge_point" where
  "session_of r = (case r of Inl x \<Rightarrow> snd x | Inr s \<Rightarrow> s)"

section \<open>server.py: the handler of StartTransaction\<close>

record start_transaction_payload =
  id_tag_info :: json
  transaction_id :: int

text \<open>
  A Python call \<open>f(*args, **kwargs)\<close> of a method whose parameters after \<open>self\<close> are the
  required ones \<open>params\<close> and a final \<open>**\<close>-parameter. The positional arguments fill the
  first parameters; the call binds when there are not too many of them, no keyword
  names a parameter already filled, and every parameter left is named by a keyword.
  Keywords that name no parameter go to the \<open>**\<close>-parameter. A call that does not bind
  raises \<open>TypeError\<close>.
\<close>

definition call_binds :: "string list \<Rightarrow> json list \<Rightarrow> (string \<times> json) list \<Rightarrow> bool" where
  "call_binds params args kwargs =
     (length args \<le> length params
      \<and> \<not> list_ex (\<lambda>p. p \<in> set (map fst kwargs)) (take (length args) params)
      \<and> list_all (\<lambda>p. p \<in> set (map fst kwargs)) (drop (length args) params))"

text \<open>
  \<open>on_start_transaction(self, _connector_id, _id_tag, _meter_start, _timestamp,
  **_kwargs)\<close>, called with positional arguments \<open>args\<close> and keyword arguments \<open>kwargs\<close>.
  Its body reads neither the session nor the arguments.
\<close>

definition on_start_transaction ::
  "charge_point \<Rightarrow> json list \<Rightarrow> (string \<times> json) list \<Rightarrow> error + start_transaction_payload" where
  "on_start_transaction self args kwargs =
     (if call_binds [''_connector_id'', ''_id_tag'', ''_meter_start'', ''_timestamp''] args kwargs
      then Inr \<lparr>id_tag_info = JObj [(''status'', JStr ''Accepted'')], transaction_id = 1\<rparr>
      else Inl TypeError)"

section \<open>server.py: \<open>on_connect\<close>\<close>

text \<open>
  What \<open>on_connect\<close> reads of the websocket: the headers of the opening request, a list
  of names and values in which a name may come more than once, and \<open>subprotocol\<close>,
  which the websocket library has set to the subprotocol it negotiated between the
  client's list and the server's \<open>[ocpp1.6]\<close>, or to \<open>None\<close> when the two have none in
  common.
\<close>

record websocket =
  request_headers :: "(string \<times> string) list"
  subprotocol :: "string option"

text \<open>
  \<open>headers[key]\<close> on the library's \<open>Headers\<close>: names are compared without regard to
  case; the value, when the name comes once; \<open>KeyError\<close> when it does not come at all;
  \<open>MultipleValuesError\<close>, which is not a \<open>KeyError\<close>, when it comes more than once.
\<close>

definition to_lower :: "char \<Rightarrow> char" where
  "to_lower c =
     (case map_of (zip ''ABCDEFGHIJKLMNOPQRSTUVWXYZ'' ''abcdefghijklmnopqrstuvwxyz'') c of
        Some l \<Rightarrow> l
      | None \<Rightarrow> c)"

definition headers_get :: "(string \<times> string) list \<Rightarrow> string \<Rightarrow> error + string" where
  "headers_get headers key =
     (case filter (\<lambda>kv. map to_lower (fst kv) = map to_lower key) headers of
        [] \<Rightarrow> Inl KeyError
      | [kv] \<Rightarrow> Inr (snd kv)
      | _ \<Rightarrow> Inl MultipleValuesError)"

text \<open>\<open>s.strip(chars)\<close>: \<open>s\<close> without its leading and trailing characters from \<open>chars\<close>.\<close>

definition strip :: "string \<Rightarrow> string \<Rightarrow> string" where
  "strip chars s =
     rev (dropWhile (\<lambda>c. c \<in> set chars) (rev (dropWhile (\<lambda>c. c \<in> set chars) s)))"

text \<open>
  How \<open>on_connect\<close> ends: it closed the connection without a session, or it raised
  before there was a session, or it created a \<open>ChargePoint\<close> and ran its \<open>start\<close>.
\<close>

datatype connection = Closed | Crashed error | Session charge_point outcome

text \<open>
  \<open>on_connect\<close>. Of the exceptions of the header lookup only \<open>KeyError\<close> is caught;
  \<open>None\<close> and the empty string are the falsy values of \<open>websocket.subprotocol\<close>.
\<close>

definition on_connect :: "lib \<Rightarrow> env list \<Rightarrow> websocket \<Rightarrow> string \<Rightarrow> connection" where
  "on_connect L es ws path =
     (case headers_get (request_headers ws) ''Sec-WebSocket-Protocol'' of
        Inl x \<Rightarrow> (if x = KeyError then Closed else Crashed x)
      | Inr requested_protocols \<Rightarrow>
         (if subprotocol ws \<noteq> None \<and> subprotocol ws \<noteq> Some []
          then (let charge_point_id = strip ''/'' path;
                    cp = ChargePoint charge_point_id
                in Session cp (start L es cp))
          else Closed))"

section \<open>Notions the properties are stated with\<close>

text \<open>The actions of the calls sent over a connection, in order.\<close>

fun sent_actions :: "event list \<Rightarrow> string list" where
  "sent_actions [] = []"
| "sent_actions (Sent c # tr) = action c # sent_actions tr"
| "sent_actions (Received m # tr) = sent_actions tr"

text \<open>
  Sequences of evaluations. \<open>clamped_reading\<close> is the cap a pass computes from the
  inverter's response. \<open>steady\<close> holds of the passes, after one that marked minute \<open>m\<close>,
  in which every evaluation is due and gets a usable reading, both calls pass
  validation and are delivered, a frame arrives and \<open>route_message\<close> returns on it.
  \<open>expected_calls\<close> lists what the
  hysteresis rule asks for: a clear and a set for each reading that differs from the cap
  before it, nothing for one that equals it.
\<close>

definition clamped_reading :: "env \<Rightarrow> error + rat" where
  "clamped_reading e =
     (case read_power (response e) of
        Inl x \<Rightarrow> Inl x
      | Inr reading \<Rightarrow> clamp_max_charge (fst reading))"

fun steady :: "lib \<Rightarrow> int \<Rightarrow> env list \<Rightarrow> bool" where
  "steady L m [] = True"
| "steady L m (e # es) =
     (minute_at_check e \<noteq> m
      \<and> (case read_power (response e) of
            Inl x \<Rightarrow> False
          | Inr reading \<Rightarrow>
             (case clamp_max_charge (fst reading) of
                Inl x \<Rightarrow> False
              | Inr c \<Rightarrow>
                  validate_payload L (clear_call L e) \<and> clear_delivered e
                  \<and> validate_payload L (set_call L e c (snd reading)) \<and> set_delivered e))
      \<and> inbound e \<noteq> None \<and> routed e = None
      \<and> steady L (minute_at_mark e) es)"

fun expected_calls :: "rat \<Rightarrow> env list \<Rightarrow> string list" where
  "expected_calls last_cap [] = []"
| "expected_calls last_cap (e # es) =
     (case clamped_reading e of
        Inl x \<Rightarrow> []
      | Inr c \<Rightarrow>
          (if c = last_cap then [] else [''ClearChargingProfile'', ''SetChargingProfile''])
          @ expected_calls c es)"

text \<open>
  The ordering the specification asks of a cycle, read off the traffic: no
  SetChargingProfile is sent while a ClearChargingProfile sent before it is still
  unanswered. The flag tells whether a clear is outstanding; any frame that arrives is
  taken to answer it.
\<close>

fun clear_answered_before_set :: "bool \<Rightarrow> event list \<Rightarrow> bool" where
  "clear_answered_before_set outstanding [] = True"
| "clear_answered_before_set outstanding (Received m # tr) =
     clear_answered_before_set False tr"
| "clear_answered_before_set outstanding (Sent c # tr) =
     (if action c = ''SetChargingProfile''
      then \<not> outstanding \<and> clear_answered_before_set outstanding tr
      else clear_answered_before_set (action c = ''ClearChargingProfile'') tr)"

text \<open>No key of a dict, at any depth, has the value \<open>None\<close>.\<close>

primrec null_free :: "json \<Rightarrow> bool" where
  "null_free JNull = True"
| "null_free (JBool b) = True"
| "null_free (JNum x) = True"
| "null_free (JStr t) = True"
| "null_free (JArr xs) = list_all (\<lambda>b. b) (map null_free xs)"
| "null_free (JObj kvs) =
     (list_all (\<lambda>kv. snd kv \<noteq> JNull) kvs \<and> list_all snd (map (map_prod id null_free) kvs))"

text \<open>
  None of the document's own keys has the value \<open>None\<close>; a value that is not a dict has
  no keys.
\<close>

definition no_null_keys :: "json \<Rightarrow> bool" where
  "no_null_keys j =
     (case j of JObj kvs \<Rightarrow> list_all (\<lambda>kv. snd kv \<noteq> JNull) kvs | _ \<Rightarrow> True)"

text \<open>Every call sent so far passed validation and has a payload of the kind \<open>P\<close>.\<close>

fun sent_checked :: "lib \<Rightarrow> (json \<Rightarrow> bool) \<Rightarrow> event list \<Rightarrow> bool" where
  "sent_checked L P [] = True"
| "sent_checked L P (Sent c # tr) =
     (validate_payload L c \<and> P (payload c) \<and> sent_checked L P tr)"
| "sent_checked L P (Received m # tr) = sent_checked L P tr"

text \<open>
  The value under a nested path of keys, when every key of the path is there; and the
  documents in which whatever is there along a path, and at its end, is a dict.
\<close>

fun path_value :: "json \<Rightarrow> string list \<Rightarrow> json option" where
  "path_value j [] = Some j"
| "path_value j (k # ks) =
     (case j of
        JObj kvs \<Rightarrow> (case map_of kvs k of None \<Rightarrow> None | Some v \<Rightarrow> path_value v ks)
      | _ \<Rightarrow> None)"


section \<open>A stand-in for the protocol library\<close>

text \<open>
  To run the model on concrete inputs the three library functions need values. These
  follow the library: keys go from snake case to camel case at every depth,
  \<open>None\<close>-valued keys are dropped at every depth, and the schema check is limited to
  what this server can vary: the action must be one of the two it sends, the payload a
  dict, and the rate unit of a profile one of the schema's two, \<open>A\<close> and \<open>W\<close>.
\<close>

definition to_upper :: "char \<Rightarrow> char" where
  "to_upper c =
     (case map_of (zip ''abcdefghijklmnopqrstuvwxyz'' ''ABCDEFGHIJKLMNOPQRSTUVWXYZ'') c of
        Some u \<Rightarrow> u
      | None \<Rightarrow> c)"

fun camel :: "bool \<Rightarrow> string \<Rightarrow> string" where
  "camel up [] = []"
| "camel up (c # cs) =
     (if c = CHR ''_'' then camel True cs
      else (if up then to_upper c else c) # camel False cs)"

primrec camel_keys :: "json \<Rightarrow> json" where
  "camel_keys JNull = JNull"
| "camel_keys (JBool b) = JBool b"
| "camel_keys (JNum x) = JNum x"
| "camel_keys (JStr t) = JStr t"
| "camel_keys (JArr xs) = JArr (map camel_keys xs)"
| "camel_keys (JObj kvs) = JObj (map (map_prod (camel False) camel_keys) kvs)"

primrec drop_nones :: "json \<Rightarrow> json" where
  "drop_nones JNull = JNull"
| "drop_nones (JBool b) = JBool b"
| "drop_nones (JNum x) = JNum x"
| "drop_nones (JStr t) = JStr t"
| "drop_nones (JArr xs) = JArr (filter (\<lambda>v. v \<noteq> JNull) (map drop_nones xs))"
| "drop_nones (JObj kvs) =
     JObj (filter (\<lambda>kv. snd kv \<noteq> JNull) (map (map_prod id drop_nones) kvs))"

definition schema_ok :: "call \<Rightarrow> bool" where
  "schema_ok c =
     (if action c = ''ClearChargingProfile''
      then (case payload c of JObj kvs \<Rightarrow> True | _ \<Rightarrow> False)
      else if action c = ''SetChargingProfile''
      then (case get_chain (payload c)
                   [''csChargingProfiles'', ''chargingSchedule'', ''chargingRateUnit''] of
              Inr u \<Rightarrow> u = JStr ''A'' \<or> u = JStr ''W''
            | Inl x \<Rightarrow> False)
      else False)"

definition ocpp :: lib where
  "ocpp = \<lparr>snake_to_camel_case = camel_keys, remove_nones = drop_nones,
            validate_payload = schema_ok\<rparr>"

text \<open>
  A response of the inverter with a power and a unit; and the answers of the outside
  world for a pass in minute \<open>m\<close> that reads it, draws its two unique ids from \<open>n\<close>,
  delivers both frames and then receives a Heartbeat call, which is routed.
\<close>

definition fronius :: "rat \<Rightarrow> string \<Rightarrow> json" where
  "fronius w u =
     JObj [(''Body'', JObj [(''Data'', JObj [(''PAC'',
       JObj [(''Unit'', JStr u), (''Values'', JObj [(''1'', JNum w)])])])])]"

definition heartbeat :: string where
  \<open>heartbeat = ''[2, "19", "Heartbeat", {}]''\<close>

text \<open>A CallError frame answering the call with the unique id \<open>a-1\<close>.\<close>

definition call_error :: string where
  \<open>call_error = ''[4, "a-1", "InternalError", "", {}]''\<close>

definition pass :: "string \<Rightarrow> int \<Rightarrow> rat \<Rightarrow> string \<Rightarrow> env" where
  "pass n m w u =
     \<lparr>minute_at_check = m, minute_at_mark = m, response = Some (fronius w u),
      utcnow = ''2024-05-01T12:00:00'', uid_clear = n @ ''-1'', uid_set = n @ ''-2'',
      clear_delivered = True, set_delivered = True, inbound = Some heartbeat,
      routed = None\<rparr>"

section \<open>The evaluation, branch by branch\<close>

lemma evaluate_same:
  assumes "read_power (response e) = Inr (p, u)" and "clamp_max_charge p = Inr c"
    and "c = last_max_charge s"
  shows "evaluate L e s = Inr (s\<lparr>last_profile_sent := minute_at_mark e\<rparr>)"
  using assms by (simp add: evaluate_def and_then_def)

lemma evaluate_changed:
  assumes "read_power (response e) = Inr (p, u)" and "clamp_max_charge p = Inr c"
    and "c \<noteq> last_max_charge s"
    and "validate_payload L (clear_call L e)" and "clear_delivered e"
    and "validate_payload L (set_call L e c u)" and "set_delivered e"
  shows "evaluate L e s =
     Inr (s\<lparr>wire := wire s @ [Sent (clear_call L e), Sent (set_call L e c u)],
            last_max_charge := c, last_profile_sent := minute_at_mark e\<rparr>)"
  using assms
  by (simp add: evaluate_def and_then_def clear_smart_charge_profile_def
      set_smart_charge_profile_def send_payload_def)

lemma evaluate_clear_fails:
  assumes "read_power (response e) = Inr (p, u)" and "clamp_max_charge p = Inr c"
    and "c \<noteq> last_max_charge s"
    and "\<not> (validate_payload L (clear_call L e) \<and> clear_delivered e)"
  shows "evaluate L e s =
     Inl (if validate_payload L (clear_call L e) then ConnectionClosed else ValidationError, s)"
  using assms
  by (auto simp add: evaluate_def and_then_def clear_smart_charge_profile_def
      send_payload_def)

lemma evaluate_set_fails:
  assumes "read_power (response e) = Inr (p, u)" and "clamp_max_charge p = Inr c"
    and "c \<noteq> last_max_charge s"
    and "validate_payload L (clear_call L e)" and "clear_delivered e"
    and "\<not> (validate_payload L (set_call L e c u) \<and> set_delivered e)"
  shows "evaluate L e s =
     Inl (if validate_payload L (set_call L e c u) then ConnectionClosed else ValidationError,
          s\<lparr>wire := wire s @ [Sent (clear_call L e)]\<rparr>)"
  using assms
  by (auto simp add: evaluate_def and_then_def clear_smart_charge_profile_def
      set_smart_charge_profile_def send_payload_def)

lemma action_clear_call: "action (clear_call L e) = ''ClearChargingProfile''"
  by (simp add: build_call_def)

lemma action_set_call: "action (set_call L e c u) = ''SetChargingProfile''"
  by (simp add: build_call_def)

lemma sent_actions_append: "sent_actions (xs @ ys) = sent_actions xs @ sent_actions ys"
  by (induction xs rule: sent_actions.induct) simp_all

lemma clamp_number: "clamp_max_charge (JNum v) = Inr (max 240 v)"
  by (simp add: clamp_max_charge_def max_def)

text \<open>The stand-in and the sample response, evaluated once.\<close>

lemma read_fronius: "read_power (Some (fronius w u)) = Inr (JNum w, JStr u)"
  by (simp add: read_power_def fronius_def dict_get_def)

lemma ocpp_accepts_clear: "validate_payload ocpp (clear_call ocpp e)"
  by (simp add: ocpp_def build_call_def schema_ok_def)

lemma ocpp_accepts_set:
  "validate_payload ocpp (set_call ocpp e c (JStr u)) \<longleftrightarrow> u = ''A'' \<or> u = ''W''"
  by (simp add: ocpp_def build_call_def schema_ok_def cs_charging_profiles_def dict_get_def
      to_upper_def)

lemma pass_fields:
  "minute_at_check (pass n m w u) = m" "minute_at_mark (pass n m w u) = m"
  "response (pass n m w u) = Some (fronius w u)"
  "clear_delivered (pass n m w u)" "set_delivered (pass n m w u)"
  "inbound (pass n m w u) = Some heartbeat" "routed (pass n m w u) = None"
  by (simp_all add: pass_def)

section \<open>Hysteresis\<close>

text \<open>Over steady passes the loop completes and sends exactly the expected calls.\<close>

lemma steady_run:
  "steady L (last_profile_sent s) es \<Longrightarrow>
     raised (start L es s) = None
     \<and> sent_actions (wire (session_of (start L es s))) =
         sent_actions (wire s) @ expected_calls (last_max_charge s) es"
proof (induction es arbitrary: s)
  case Nil
  then show ?case by (simp add: raised_def session_of_def)
next
  case (Cons e es)
  from Cons.prems obtain p u c m where
    due: "last_profile_sent s \<noteq> minute_at_check e"
    and r: "read_power (response e) = Inr (p, u)"
    and c: "clamp_max_charge p = Inr c"
    and ok: "validate_payload L (clear_call L e)" "clear_delivered e"
      "validate_payload L (set_call L e c u)" "set_delivered e"
    and m: "inbound e = Some m" "routed e = None"
    and rest: "steady L (minute_at_mark e) es"
    by (auto split: sum.splits)
  have cr: "clamped_reading e = Inr c"
    using r c by (simp add: clamped_reading_def)
  show ?case
  proof (cases "c = last_max_charge s")
    case True
    let ?s' = "s\<lparr>last_profile_sent := minute_at_mark e, wire := wire s @ [Received m]\<rparr>"
    have step: "start_step L e s = Inr ?s'"
      using evaluate_same [OF r c True, of L] due m
      by (simp add: start_step_def and_then_def route_message_def)
    have "steady L (last_profile_sent ?s') es"
      using rest by simp
    from Cons.IH [OF this] step cr True show ?thesis
      by (simp add: and_then_def sent_actions_append)
  next
    case False
    let ?s' = "s\<lparr>wire := wire s @ [Sent (clear_call L e), Sent (set_call L e c u), Received m],
       last_max_charge := c, last_profile_sent := minute_at_mark e\<rparr>"
    have step: "start_step L e s = Inr ?s'"
      using evaluate_changed [OF r c False ok] due m
      by (simp add: start_step_def and_then_def route_message_def)
    have "steady L (last_profile_sent ?s') es"
      using rest by simp
    from Cons.IH [OF this] step cr False show ?thesis
      by (simp add: and_then_def sent_actions_append action_clear_call action_set_call)
  qed
qed

text \<open>
  C4, as the specification states it, fails: a reading whose clamped value differs from
  the last-applied cap does not always bring a (clear, set) pair and a recorded cap.
  After 300 W a reading of 250 kW changes the clamped value to 250; the clear goes out,
  the set is refused by validation, the cap stays 300 and the session ends. The same
  happens on 250 W when the websocket does not take the set frame.
\<close>

theorem change_without_pair:
  "clamped_reading (pass ''b'' 2 250 ''kW'') = Inr 250
   \<and> start ocpp [pass ''a'' 1 300 ''W'', pass ''b'' 2 250 ''kW''] (ChargePoint ''cp1'') =
       Inl (ValidationError,
            \<lparr>cp_id = ''cp1'', last_profile_sent = 1, last_max_charge = 300,
             wire = [Sent (clear_call ocpp (pass ''a'' 1 300 ''W'')),
                     Sent (set_call ocpp (pass ''a'' 1 300 ''W'') 300 (JStr ''W'')),
                     Received heartbeat,
                     Sent (clear_call ocpp (pass ''b'' 2 250 ''kW''))]\<rparr>)
   \<and> start ocpp [pass ''a'' 1 300 ''W'', (pass ''b'' 2 250 ''W'')\<lparr>set_delivered := False\<rparr>]
         (ChargePoint ''cp1'') =
       Inl (ConnectionClosed,
            \<lparr>cp_id = ''cp1'', last_profile_sent = 1, last_max_charge = 300,
             wire = [Sent (clear_call ocpp (pass ''a'' 1 300 ''W'')),
                     Sent (set_call ocpp (pass ''a'' 1 300 ''W'') 300 (JStr ''W'')),
                     Received heartbeat,
                     Sent (clear_call ocpp (pass ''b'' 2 250 ''W''))]\<rparr>)"
  by code_simp

text \<open>
  C4, as the code has it. At any point of any sequence of evaluations, that is in any
  state \<open>s\<close> of the session: an evaluation whose clamped reading \<open>c\<close> equals the
  last-applied cap sends nothing (only the minute is marked); one whose clamped reading
  differs, provided its two calls pass validation and are delivered, sends exactly the
  clear and then the set and records \<open>c\<close>. Over any sequence of steady passes the loop
  completes and the calls sent are one (clear, set) pair for each reading that differs
  from the cap before it and nothing else. On the readings 300, 300, 300, 250 W in four
  successive minutes, every call delivered and every frame routed, a fresh session
  sends two pairs: one in the first pass, none in the second and third, one in the
  fourth.
\<close>

theorem hysteresis:
  assumes "read_power (response e) = Inr (p, u)" and "clamp_max_charge p = Inr c"
  shows "(c = last_max_charge s \<longrightarrow>
            evaluate L e s = Inr (s\<lparr>last_profile_sent := minute_at_mark e\<rparr>))
       \<and> (c \<noteq> last_max_charge s \<and> validate_payload L (clear_call L e) \<and> clear_delivered e
            \<and> validate_payload L (set_call L e c u) \<and> set_delivered e \<longrightarrow>
            evaluate L e s =
              Inr (s\<lparr>wire := wire s @ [Sent (clear_call L e), Sent (set_call L e c u)],
                     last_max_charge := c, last_profile_sent := minute_at_mark e\<rparr>))
       \<and> (steady L (last_profile_sent s) es \<longrightarrow>
            raised (start L es s) = None
            \<and> sent_actions (wire (session_of (start L es s))) =
                sent_actions (wire s) @ expected_calls (last_max_charge s) es)
       \<and> start ocpp [pass ''a'' 1 300 ''W'', pass ''b'' 2 300 ''W'', pass ''c'' 3 300 ''W'',
            pass ''d'' 4 250 ''W''] (ChargePoint ''cp1'') =
          Inr \<lparr>cp_id = ''cp1'', last_profile_sent = 4, last_max_charge = 250,
            wire = [Sent (clear_call ocpp (pass ''a'' 1 300 ''W'')),
                    Sent (set_call ocpp (pass ''a'' 1 300 ''W'') 300 (JStr ''W'')),
                    Received heartbeat, Received heartbeat, Received heartbeat,
                    Sent (clear_call ocpp (pass ''d'' 4 250 ''W'')),
                    Sent (set_call ocpp (pass ''d'' 4 250 ''W'') 250 (JStr ''W'')),
                    Received heartbeat]\<rparr>"
proof -
  have run:
    "start ocpp [pass ''a'' 1 300 ''W'', pass ''b'' 2 300 ''W'', pass ''c'' 3 300 ''W'',
       pass ''d'' 4 250 ''W''] (ChargePoint ''cp1'') =
     Inr \<lparr>cp_id = ''cp1'', last_profile_sent = 4, last_max_charge = 250,
       wire = [Sent (clear_call ocpp (pass ''a'' 1 300 ''W'')),
               Sent (set_call ocpp (pass ''a'' 1 300 ''W'') 300 (JStr ''W'')),
               Received heartbeat, Received heartbeat, Received heartbeat,
               Sent (clear_call ocpp (pass ''d'' 4 250 ''W'')),
               Sent (set_call ocpp (pass ''d'' 4 250 ''W'') 250 (JStr ''W'')),
               Received heartbeat]\<rparr>"
    by code_simp
  show ?thesis
    using evaluate_same [OF assms, of s L] evaluate_changed [OF assms, of s L]
      steady_run [of L s es] run
    by blast
qed

theorem hysteresis_witness:
  "evaluate ocpp (pass ''b'' 2 300 ''W'')
      \<lparr>cp_id = ''cp1'', last_profile_sent = 1, last_max_charge = 300, wire = []\<rparr> =
     Inr \<lparr>cp_id = ''cp1'', last_profile_sent = 2, last_max_charge = 300, wire = []\<rparr>
   \<and> evaluate ocpp (pass ''d'' 4 250 ''W'')
      \<lparr>cp_id = ''cp1'', last_profile_sent = 3, last_max_charge = 300, wire = []\<rparr> =
     Inr \<lparr>cp_id = ''cp1'', last_profile_sent = 4, last_max_charge = 250,
          wire = [Sent (clear_call ocpp (pass ''d'' 4 250 ''W'')),
                  Sent (set_call ocpp (pass ''d'' 4 250 ''W'') 250 (JStr ''W''))]\<rparr>
   \<and> sent_actions (wire (session_of
        (start ocpp [pass ''a'' 1 300 ''W'', pass ''b'' 2 300 ''W'', pass ''c'' 3 300 ''W'',
           pass ''d'' 4 250 ''W''] (ChargePoint ''cp1'')))) =
       [''ClearChargingProfile'', ''SetChargingProfile'',
        ''ClearChargingProfile'', ''SetChargingProfile'']"
proof -
  let ?s1 = "\<lparr>cp_id = ''cp1'', last_profile_sent = 1, last_max_charge = 300, wire = []\<rparr>"
  let ?s3 = "\<lparr>cp_id = ''cp1'', last_profile_sent = 3, last_max_charge = 300, wire = []\<rparr>"
  let ?es = "[pass ''a'' 1 300 ''W'', pass ''b'' 2 300 ''W'', pass ''c'' 3 300 ''W'',
     pass ''d'' 4 250 ''W'']"
  have r1: "read_power (response (pass ''b'' 2 300 ''W'')) = Inr (JNum 300, JStr ''W'')"
    by (simp add: pass_fields read_fronius)
  have r2: "read_power (response (pass ''d'' 4 250 ''W'')) = Inr (JNum 250, JStr ''W'')"
    by (simp add: pass_fields read_fronius)
  have c1: "clamp_max_charge (JNum 300) = Inr 300" by (simp add: clamp_number)
  have c2: "clamp_max_charge (JNum 250) = Inr 250" by (simp add: clamp_number)
  have st: "steady ocpp (last_profile_sent (ChargePoint ''cp1'')) ?es"
    by code_simp
  have ex: "expected_calls (last_max_charge (ChargePoint ''cp1'')) ?es =
      [''ClearChargingProfile'', ''SetChargingProfile'',
       ''ClearChargingProfile'', ''SetChargingProfile'']"
    by code_simp
  have w: "wire (ChargePoint ''cp1'') = []" by (simp add: ChargePoint_def)
  show ?thesis
    using hysteresis [OF r1 c1, of ?s1 ocpp "[]"]
      hysteresis [OF r2 c2, of ?s3 ocpp "[]"]
      hysteresis [OF r1 c1, of "ChargePoint ''cp1''" ocpp ?es] st ex w
      ocpp_accepts_clear [of "pass ''d'' 4 250 ''W''"]
      ocpp_accepts_set [of "pass ''d'' 4 250 ''W''" 250 "''W''"]
    by (simp add: pass_fields)
qed

section \<open>The floor of the cap\<close>




section \<open>The first evaluation of a session\<close>




section \<open>The order of the two calls\<close>

text \<open>
  C1, as the specification states it, fails: a fresh session reading 300 W sends the
  clear and at once the set, and only then reads a frame from the connection; the set
  is sent while the clear is unanswered.
\<close>

theorem set_sent_while_clear_unanswered:
  "raised (start_step ocpp (pass ''a'' 1 300 ''W'') (ChargePoint ''cp1'')) = None
   \<and> wire (session_of (start_step ocpp (pass ''a'' 1 300 ''W'') (ChargePoint ''cp1''))) =
       [Sent (clear_call ocpp (pass ''a'' 1 300 ''W'')),
        Sent (set_call ocpp (pass ''a'' 1 300 ''W'') 300 (JStr ''W'')), Received heartbeat]
   \<and> \<not> clear_answered_before_set False
         (wire (session_of (start_step ocpp (pass ''a'' 1 300 ''W'') (ChargePoint ''cp1''))))"
  by code_simp

text \<open>
  C1, as the code has it. In a cycle that decides on a change, what the evaluation
  puts on the connection is the clear, then the set, and nothing else: the clear alone
  when the set is refused or not delivered, and nothing when the clear is. No frame
  is read between the two; when the evaluation completes, the frame read by that pass
  comes after both calls.
\<close>

theorem clear_then_set_back_to_back:
  assumes "read_power (response e) = Inr (p, u)" and "clamp_max_charge p = Inr c"
    and "c \<noteq> last_max_charge s"
  shows "wire (session_of (evaluate L e s)) =
           wire s @
           (if \<not> (validate_payload L (clear_call L e) \<and> clear_delivered e) then []
            else if \<not> (validate_payload L (set_call L e c u) \<and> set_delivered e)
              then [Sent (clear_call L e)]
            else [Sent (clear_call L e), Sent (set_call L e c u)])
       \<and> (last_profile_sent s \<noteq> minute_at_check e \<and> raised (evaluate L e s) = None \<longrightarrow>
            wire (session_of (start_step L e s)) =
              wire s @ [Sent (clear_call L e), Sent (set_call L e c u)] @
              (case inbound e of None \<Rightarrow> [] | Some m \<Rightarrow> [Received m]))"
proof -
  consider (a) "\<not> (validate_payload L (clear_call L e) \<and> clear_delivered e)"
    | (b) "validate_payload L (clear_call L e)" "clear_delivered e"
          "\<not> (validate_payload L (set_call L e c u) \<and> set_delivered e)"
    | (c) "validate_payload L (clear_call L e)" "clear_delivered e"
          "validate_payload L (set_call L e c u)" "set_delivered e"
    by blast
  then show ?thesis
  proof cases
    case a
    from evaluate_clear_fails [OF assms a] a show ?thesis
      by (simp add: session_of_def raised_def)
  next
    case b
    from evaluate_set_fails [OF assms b] b show ?thesis
      by (simp add: session_of_def raised_def)
  next
    case c
    from evaluate_changed [OF assms c] c show ?thesis
      by (simp add: session_of_def raised_def start_step_def and_then_def route_message_def
          split: option.splits)
  qed
qed

theorem clear_then_set_back_to_back_witness:
  "wire (session_of (evaluate ocpp (pass ''a'' 1 300 ''W'') (ChargePoint ''cp1''))) =
     [Sent (clear_call ocpp (pass ''a'' 1 300 ''W'')),
      Sent (set_call ocpp (pass ''a'' 1 300 ''W'') 300 (JStr ''W''))]
   \<and> wire (session_of (start_step ocpp (pass ''a'' 1 300 ''W'') (ChargePoint ''cp1''))) =
     [Sent (clear_call ocpp (pass ''a'' 1 300 ''W'')),
      Sent (set_call ocpp (pass ''a'' 1 300 ''W'') 300 (JStr ''W'')), Received heartbeat]"
proof -
  have r: "read_power (response (pass ''a'' 1 300 ''W'')) = Inr (JNum 300, JStr ''W'')"
    by (simp add: pass_fields read_fronius)
  have c: "clamp_max_charge (JNum 300) = Inr 300" by (simp add: clamp_number)
  have n: "300 \<noteq> last_max_charge (ChargePoint ''cp1'')" by (simp add: ChargePoint_def)
  have ok: "raised (evaluate ocpp (pass ''a'' 1 300 ''W'') (ChargePoint ''cp1'')) = None"
    by code_simp
  show ?thesis
    using clear_then_set_back_to_back [OF r c n, of ocpp] ok
    by (simp add: pass_fields ocpp_accepts_clear ocpp_accepts_set ChargePoint_def)
qed

section \<open>The unit of the reading\<close>

text \<open>
  C2, as the specification states it, fails: on a reading of 500 with the unit \<open>A\<close>,
  which is not the expected \<open>W\<close>, a fresh session sends both calls and records 500 in
  place of 0.
\<close>

theorem unit_mismatch_still_applied:
  "raised (evaluate ocpp (pass ''a'' 1 500 ''A'') (ChargePoint ''cp1'')) = None
   \<and> sent_actions (wire (session_of (evaluate ocpp (pass ''a'' 1 500 ''A'') (ChargePoint ''cp1''))))
       = [''ClearChargingProfile'', ''SetChargingProfile'']
   \<and> last_max_charge (ChargePoint ''cp1'') = 0
   \<and> last_max_charge (session_of (evaluate ocpp (pass ''a'' 1 500 ''A'') (ChargePoint ''cp1''))) = 500"
  by code_simp

text \<open>
  C2, as the code has it. The evaluation does not inspect the unit. On a reading whose
  unit \<open>unit\<close> is not \<open>W\<close> and whose clamped value differs from the last-applied cap, the
  two calls passing validation and being delivered, it sends the clear and the set,
  the set carrying \<open>unit\<close> as the rate unit of the schedule, and records the cap.
\<close>

theorem unit_passed_through:
  assumes "read_power (response e) = Inr (p, JStr unit)" and "unit \<noteq> ''W''"
    and "clamp_max_charge p = Inr c" and "c \<noteq> last_max_charge s"
    and "validate_payload L (clear_call L e)" and "clear_delivered e"
    and "validate_payload L (set_call L e c (JStr unit))" and "set_delivered e"
  shows "evaluate L e s =
           Inr (s\<lparr>wire := wire s @ [Sent (clear_call L e), Sent (set_call L e c (JStr unit))],
                  last_max_charge := c, last_profile_sent := minute_at_mark e\<rparr>)
       \<and> path_value (cs_charging_profiles (utcnow e) c (JStr unit))
           [''chargingSchedule'', ''chargingRateUnit''] = Some (JStr unit)"
  using evaluate_changed [OF assms(1,3,4,5,6,7,8)] by (simp add: cs_charging_profiles_def)

theorem unit_passed_through_witness:
  "evaluate ocpp (pass ''a'' 1 500 ''A'') (ChargePoint ''cp1'') =
     Inr \<lparr>cp_id = ''cp1'', last_profile_sent = 1, last_max_charge = 500,
          wire = [Sent (clear_call ocpp (pass ''a'' 1 500 ''A'')),
                  Sent (set_call ocpp (pass ''a'' 1 500 ''A'') 500 (JStr ''A''))]\<rparr>"
proof -
  have r: "read_power (response (pass ''a'' 1 500 ''A'')) = Inr (JNum 500, JStr ''A'')"
    by (simp add: pass_fields read_fronius)
  have u: "''A'' \<noteq> ''W''" by simp
  have c: "clamp_max_charge (JNum 500) = Inr 500" by (simp add: clamp_number)
  have n: "500 \<noteq> last_max_charge (ChargePoint ''cp1'')" by (simp add: ChargePoint_def)
  have v: "validate_payload ocpp (set_call ocpp (pass ''a'' 1 500 ''A'') 500 (JStr ''A''))"
    by (simp add: ocpp_accepts_set)
  show ?thesis
    using unit_passed_through [OF r u c n ocpp_accepts_clear _ v]
    by (simp add: pass_fields ChargePoint_def)
qed

section \<open>A failing outbound call\<close>

text \<open>
  C3, as the specification states it, fails twice. When the connection does not take
  the set frame, the exception leaves the loop: the session ends and the pass of the
  next minute never runs. And a CallError that answers the clear is only read after
  both calls went out and the cap was recorded.
\<close>

theorem failed_call_crashes_or_goes_unnoticed:
  \<open>start ocpp [(pass ''a'' 1 300 ''W'')\<lparr>set_delivered := False\<rparr>, pass ''b'' 2 300 ''W'']
      (ChargePoint ''cp1'') =
     Inl (ConnectionClosed,
          \<lparr>cp_id = ''cp1'', last_profile_sent = - 1, last_max_charge = 0,
           wire = [Sent (clear_call ocpp (pass ''a'' 1 300 ''W''))]\<rparr>)
   \<and> start_step ocpp ((pass ''a'' 1 300 ''W'')\<lparr>inbound := Some call_error\<rparr>)
      (ChargePoint ''cp1'') =
     Inr \<lparr>cp_id = ''cp1'', last_profile_sent = 1, last_max_charge = 300,
          wire = [Sent (clear_call ocpp (pass ''a'' 1 300 ''W'')),
                  Sent (set_call ocpp (pass ''a'' 1 300 ''W'') 300 (JStr ''W'')),
                  Received call_error]\<rparr>\<close>
  by code_simp

text \<open>
  C3, as the code has it. In a pass whose evaluation is due and decides on a change:
  when the clear is refused by validation or not delivered, nothing is sent and the
  session object is as before; when the clear went out and the set is refused or not
  delivered, only the clear was sent. In both cases the cap and the minute keep their
  previous values, and the exception leaves the loop whatever passes would follow: the
  session ends.
\<close>

theorem failed_send_ends_session:
  assumes "read_power (response e) = Inr (p, u)" and "clamp_max_charge p = Inr c"
    and "c \<noteq> last_max_charge s" and "last_profile_sent s \<noteq> minute_at_check e"
  shows "(\<not> (validate_payload L (clear_call L e) \<and> clear_delivered e) \<longrightarrow>
            start L (e # es) s =
              Inl (if validate_payload L (clear_call L e) then ConnectionClosed
                   else ValidationError, s))
       \<and> (validate_payload L (clear_call L e) \<and> clear_delivered e
            \<and> \<not> (validate_payload L (set_call L e c u) \<and> set_delivered e) \<longrightarrow>
            start L (e # es) s =
              Inl (if validate_payload L (set_call L e c u) then ConnectionClosed
                   else ValidationError,
                   s\<lparr>wire := wire s @ [Sent (clear_call L e)]\<rparr>))"
  using evaluate_clear_fails [OF assms(1-3), of L] evaluate_set_fails [OF assms(1-3), of L]
    assms(4)
  by (auto simp add: start_step_def and_then_def)

theorem failed_send_ends_session_witness:
  "start ocpp [(pass ''a'' 1 300 ''W'')\<lparr>clear_delivered := False\<rparr>, pass ''b'' 2 300 ''W'']
      (ChargePoint ''cp1'') = Inl (ConnectionClosed, ChargePoint ''cp1'')
   \<and> start ocpp [pass ''a'' 1 300 ''kW'', pass ''b'' 2 300 ''W''] (ChargePoint ''cp1'') =
     Inl (ValidationError,
          (ChargePoint ''cp1'')\<lparr>wire := [Sent (clear_call ocpp (pass ''a'' 1 300 ''kW''))]\<rparr>)"
proof -
  let ?e1 = "(pass ''a'' 1 300 ''W'')\<lparr>clear_delivered := False\<rparr>"
  let ?e2 = "pass ''a'' 1 300 ''kW''"
  have r1: "read_power (response ?e1) = Inr (JNum 300, JStr ''W'')"
    by (simp add: pass_fields read_fronius)
  have r2: "read_power (response ?e2) = Inr (JNum 300, JStr ''kW'')"
    by (simp add: pass_fields read_fronius)
  have c: "clamp_max_charge (JNum 300) = Inr 300" by (simp add: clamp_number)
  have n: "300 \<noteq> last_max_charge (ChargePoint ''cp1'')" by (simp add: ChargePoint_def)
  have d1: "last_profile_sent (ChargePoint ''cp1'') \<noteq> minute_at_check ?e1"
    by (simp add: pass_fields ChargePoint_def)
  have d2: "last_profile_sent (ChargePoint ''cp1'') \<noteq> minute_at_check ?e2"
    by (simp add: pass_fields ChargePoint_def)
  have v: "\<not> validate_payload ocpp (set_call ocpp ?e2 300 (JStr ''kW''))"
    by (simp add: ocpp_accepts_set)
  show ?thesis
    using failed_send_ends_session [OF r1 c n d1, of ocpp "[pass ''b'' 2 300 ''W'']"]
      failed_send_ends_session [OF r2 c n d2, of ocpp "[pass ''b'' 2 300 ''W'']"] v
    by (simp add: pass_fields ocpp_accepts_clear ChargePoint_def)
qed

section \<open>The handler of StartTransaction\<close>

text \<open>
  The library's router calls a handler with the fields of the inbound payload as
  keyword arguments, their names in snake case. A call without positional arguments
  that has no keyword \<open>_connector_id\<close> does not bind.
\<close>

lemma keyword_call_raises:
  "''_connector_id'' \<notin> set (map fst kwargs) \<Longrightarrow>
     on_start_transaction self [] kwargs = Inl TypeError"
  by (simp add: on_start_transaction_def call_binds_def)

text \<open>
  C6. The specification has the handler return, for every inbound StartTransaction
  call, the payload with \<open>id_tag_info = {status: Accepted}\<close> and \<open>transaction_id = 1\<close>.
  The code does not do that. Called as the router calls it, with the keywords \<open>connector_id\<close>, \<open>id_tag\<close>,
  \<open>meter_start\<close> and \<open>timestamp\<close>, the handler raises \<open>TypeError\<close>: its parameters are
  named \<open>_connector_id\<close>, \<open>_id_tag\<close>, \<open>_meter_start\<close> and \<open>_timestamp\<close>, so none of them is
  filled. Only a call with the four values in positional order reaches the body, which
  returns the fixed payload.
\<close>

theorem start_transaction_raises:
  "on_start_transaction (ChargePoint ''cp1'') []
      [(''connector_id'', JNum 1), (''id_tag'', JStr ''tag''), (''meter_start'', JNum 0),
       (''timestamp'', JStr ''2024-05-01T12:00:00Z'')] = Inl TypeError
   \<and> on_start_transaction (ChargePoint ''cp1'')
      [JNum 1, JStr ''tag'', JNum 0, JStr ''2024-05-01T12:00:00Z''] [] =
     Inr \<lparr>id_tag_info = JObj [(''status'', JStr ''Accepted'')], transaction_id = 1\<rparr>"
  by (simp add: on_start_transaction_def call_binds_def)

section \<open>The gatekeeper\<close>

text \<open>What \<open>strip\<close> removes and what it leaves, for a single character.\<close>

lemma takeWhile_in_replicate:
  "takeWhile (\<lambda>x. x \<in> set [c]) s = replicate (length (takeWhile (\<lambda>x. x \<in> set [c]) s)) c"
  by (induction s) simp_all

lemma strip_decompose:
  "\<exists>lead trail. s = replicate lead c @ strip [c] s @ replicate trail c"
proof -
  let ?P = "\<lambda>x. x \<in> set [c]"
  let ?d = "dropWhile ?P s"
  have "rev ?d = takeWhile ?P (rev ?d) @ dropWhile ?P (rev ?d)"
    by simp
  then have "?d = rev (dropWhile ?P (rev ?d)) @ rev (takeWhile ?P (rev ?d))"
    by (metis rev_append rev_rev_ident)
  moreover have "rev (takeWhile ?P (rev ?d)) = replicate (length (takeWhile ?P (rev ?d))) c"
    using takeWhile_in_replicate [of c "rev ?d"] by (metis rev_replicate)
  moreover have "s = takeWhile ?P s @ ?d"
    by simp
  ultimately have "s = replicate (length (takeWhile ?P s)) c @ strip [c] s
      @ replicate (length (takeWhile ?P (rev ?d))) c"
    unfolding strip_def using takeWhile_in_replicate [of c s] by metis
  then show ?thesis by blast
qed

lemma strip_ends:
  assumes "strip [c] s \<noteq> []"
  shows "hd (strip [c] s) \<noteq> c \<and> last (strip [c] s) \<noteq> c"
proof -
  let ?P = "\<lambda>x. x \<in> set [c]"
  let ?d = "dropWhile ?P s"
  let ?r = "dropWhile ?P (rev ?d)"
  have r: "?r \<noteq> []" using assms by (simp add: strip_def)
  then have l: "\<not> ?P (hd ?r)" by (rule hd_dropWhile)
  have "last (strip [c] s) = hd ?r"
    using r by (simp add: strip_def last_rev)
  with l have last: "last (strip [c] s) \<noteq> c" by simp
  have d: "?d \<noteq> []"
  proof
    assume e: "?d = []"
    have "?r = []" unfolding e by simp
    with r show False by (rule notE)
  qed
  then have h: "\<not> ?P (hd ?d)" by (rule hd_dropWhile)
  have "hd (strip [c] s) = last ?r"
    using r by (simp add: strip_def hd_rev)
  also have "last ?r = last (rev ?d)"
    using r by (metis (no_types, lifting) append_Nil2 last_appendR takeWhile_dropWhile_id)
  also have "\<dots> = hd ?d" using d by (simp add: last_rev)
  finally show ?thesis using h last by simp
qed

text \<open>
  \<open>on_connect\<close> by cases of the header lookup: no header closes the connection; so does
  a header with no negotiated subprotocol; a header that comes once, with a negotiated
  subprotocol, gets a session whose identifier is the path stripped of slashes; a
  header that comes more than once makes \<open>on_connect\<close> raise, whatever was negotiated.
\<close>

lemma on_connect_cases:
  "(headers_get (request_headers ws) ''Sec-WebSocket-Protocol'' = Inl KeyError \<longrightarrow>
      on_connect L es ws path = Closed)
   \<and> (headers_get (request_headers ws) ''Sec-WebSocket-Protocol'' = Inl MultipleValuesError \<longrightarrow>
      on_connect L es ws path = Crashed MultipleValuesError)
   \<and> (headers_get (request_headers ws) ''Sec-WebSocket-Protocol'' = Inr requested
        \<and> subprotocol ws = None \<longrightarrow>
      on_connect L es ws path = Closed)
   \<and> (headers_get (request_headers ws) ''Sec-WebSocket-Protocol'' = Inr requested
        \<and> subprotocol ws = Some negotiated \<and> negotiated \<noteq> [] \<longrightarrow>
        on_connect L es ws path =
          Session (ChargePoint (strip ''/'' path)) (start L es (ChargePoint (strip ''/'' path)))
        \<and> cp_id (ChargePoint (strip ''/'' path)) = strip ''/'' path
        \<and> (\<exists>lead trail. path =
              replicate lead CHR ''/'' @ strip ''/'' path @ replicate trail CHR ''/'')
        \<and> (strip ''/'' path \<noteq> [] \<longrightarrow>
              hd (strip ''/'' path) \<noteq> CHR ''/'' \<and> last (strip ''/'' path) \<noteq> CHR ''/''))"
  using strip_decompose [of path "CHR ''/''"] strip_ends [of "CHR ''/''" path]
  by (auto simp add: on_connect_def ChargePoint_def Let_def)

text \<open>
  C7. The specification has a connection without a requested subprotocol, or without
  a match, closed with no session, and every connection with a successful negotiation
  given a session bound to the path stripped of slashes. The code does not do the
  latter for every such connection. A client may send the Sec-WebSocket-Protocol header on two
  lines; the negotiation then succeeds on \<open>ocpp1.6\<close>, but the header lookup of
  \<open>on_connect\<close> raises \<open>MultipleValuesError\<close>, which \<open>except KeyError\<close> does not catch,
  and no session is created. With the same protocols on one line the session is
  created.
\<close>

theorem repeated_header_no_session:
  "on_connect ocpp []
      \<lparr>request_headers = [(''Host'', ''csms.example''),
                          (''Sec-WebSocket-Protocol'', ''ocpp1.6''),
                          (''Sec-WebSocket-Protocol'', ''ocpp2.0.1'')],
       subprotocol = Some ''ocpp1.6''\<rparr> ''/cp1'' = Crashed MultipleValuesError
   \<and> on_connect ocpp []
      \<lparr>request_headers = [(''Host'', ''csms.example''),
                          (''Sec-WebSocket-Protocol'', ''ocpp1.6, ocpp2.0.1'')],
       subprotocol = Some ''ocpp1.6''\<rparr> ''/cp1'' =
     Session (ChargePoint ''cp1'') (Inr (ChargePoint ''cp1''))"
  by code_simp

section \<open>What goes out on the connection\<close>

text \<open>
  The stand-in's \<open>remove_nones\<close> leaves no \<open>None\<close>-valued key; and the invariant
  \<open>sent_checked\<close> is kept by \<open>send_payload\<close>, by an evaluation, by a pass and by the
  loop, whether they complete or raise.
\<close>

lemma null_free_drop_nones: "null_free (drop_nones j)"
  by (induction j) (auto simp add: list_all_iff)

lemma no_null_keys_drop_nones: "no_null_keys (drop_nones j)"
  by (cases j) (simp_all add: no_null_keys_def list_all_iff)

lemma sent_checked_append:
  "sent_checked L P (xs @ ys) \<longleftrightarrow> sent_checked L P xs \<and> sent_checked L P ys"
  by (induction L P xs rule: sent_checked.induct) auto

lemma send_payload_Inl: "send_payload L uid d p t = Inl x \<Longrightarrow> snd x = t"
  by (auto simp add: send_payload_def Let_def split: if_splits)

lemma send_payload_Inr:
  "send_payload L uid d p t = Inr t' \<Longrightarrow>
     validate_payload L (build_call L uid p) \<and> t' = t\<lparr>wire := wire t @ [Sent (build_call L uid p)]\<rparr>"
  by (auto simp add: send_payload_def Let_def split: if_splits)

lemma payload_build_call:
  "payload (build_call L uid p) = remove_nones L (snake_to_camel_case L (asdict p))"
  by (simp add: build_call_def)

lemma send_payload_checked:
  assumes "\<And>j. P (remove_nones L j)" and "sent_checked L P (wire t)"
  shows "case send_payload L uid d p t of
           Inl x \<Rightarrow> sent_checked L P (wire (snd x))
         | Inr t' \<Rightarrow> sent_checked L P (wire t')"
proof (cases "send_payload L uid d p t")
  case (Inl x)
  with send_payload_Inl [OF Inl] assms(2) show ?thesis by simp
next
  case (Inr t')
  with send_payload_Inr [OF Inr] assms show ?thesis
    by (simp add: sent_checked_append payload_build_call)
qed

lemma evaluate_checked:
  assumes "\<And>j. P (remove_nones L j)" and "sent_checked L P (wire s)"
  shows "sent_checked L P (wire (session_of (evaluate L e s)))"
proof (cases "read_power (response e)")
  case (Inl x)
  with assms(2) show ?thesis by (simp add: evaluate_def session_of_def)
next
  case (Inr reading)
  obtain p u where reading: "reading = (p, u)" by (cases reading)
  show ?thesis
  proof (cases "clamp_max_charge p")
    case (Inl x)
    with Inr reading assms(2) show ?thesis by (simp add: evaluate_def session_of_def)
  next
    case c: (Inr c)
    show ?thesis
    proof (cases "c = last_max_charge s")
      case True
      with evaluate_same [OF Inr [unfolded reading] c True, of L] assms(2) show ?thesis
        by (simp add: session_of_def)
    next
      case False
      let ?clear = "send_payload L (uid_clear e) (clear_delivered e) ClearChargingProfilePayload s"
      have ev: "evaluate L e s =
        and_then (and_then ?clear
          (\<lambda>s1. and_then
             (send_payload L (uid_set e) (set_delivered e)
                (SetChargingProfilePayload 0 (cs_charging_profiles (utcnow e) c u)) s1)
             (\<lambda>s2. Inr (s2\<lparr>last_max_charge := c\<rparr>))))
          (\<lambda>s3. Inr (s3\<lparr>last_profile_sent := minute_at_mark e\<rparr>))"
        using Inr reading c False
        by (simp add: evaluate_def clear_smart_charge_profile_def set_smart_charge_profile_def)
      show ?thesis
      proof (cases ?clear)
        case (Inl x)
        with send_payload_checked [OF assms, of "uid_clear e" "clear_delivered e"
            ClearChargingProfilePayload] show ?thesis
          by (simp add: ev and_then_def session_of_def)
      next
        case s1: (Inr s1)
        with send_payload_checked [OF assms, of "uid_clear e" "clear_delivered e"
            ClearChargingProfilePayload]
        have ok1: "sent_checked L P (wire s1)" by simp
        from send_payload_checked [OF assms(1) ok1, of "uid_set e" "set_delivered e"
            "SetChargingProfilePayload 0 (cs_charging_profiles (utcnow e) c u)"] s1
        show ?thesis
          by (auto simp add: ev and_then_def session_of_def split: sum.splits)
      qed
    qed
  qed
qed

lemma start_step_checked:
  assumes "\<And>j. P (remove_nones L j)" and "sent_checked L P (wire s)"
  shows "sent_checked L P (wire (session_of (start_step L e s)))"
  using evaluate_checked [OF assms, of e] assms(2)
  by (auto simp add: start_step_def and_then_def session_of_def route_message_def
      sent_checked_append split: sum.splits option.splits)

lemma start_checked:
  assumes "\<And>j. P (remove_nones L j)"
  shows "sent_checked L P (wire s) \<Longrightarrow> sent_checked L P (wire (session_of (start L es s)))"
proof (induction es arbitrary: s)
  case Nil
  then show ?case by (simp add: session_of_def)
next
  case (Cons e es)
  from start_step_checked [OF assms Cons.prems, of e] Cons.IH show ?case
    by (cases "start_step L e s") (simp_all add: and_then_def session_of_def)
qed

text \<open>
  C8. In every run of a session every call sent passed validation before it went out,
  and its payload has no \<open>None\<close>-valued key: among its own keys when the library's
  \<open>remove_nones\<close> leaves none among the keys of the dict it returns, and at every depth
  when \<open>remove_nones\<close> leaves none at any depth. For \<open>send_payload\<close> itself: a call that
  fails validation raises with nothing sent, a call goes out only when it is valid, and
  its payload is what \<open>remove_nones\<close> returned.
\<close>

theorem sent_calls_checked:
  "((\<forall>j. no_null_keys (remove_nones L j)) \<longrightarrow>
      sent_checked L no_null_keys (wire (session_of (start L es (ChargePoint i)))))
   \<and> ((\<forall>j. null_free (remove_nones L j)) \<longrightarrow>
      sent_checked L null_free (wire (session_of (start L es (ChargePoint i)))))
   \<and> send_payload L uid delivered p s =
       (if \<not> validate_payload L (build_call L uid p) then Inl (ValidationError, s)
        else if \<not> delivered then Inl (ConnectionClosed, s)
        else Inr (s\<lparr>wire := wire s @ [Sent (build_call L uid p)]\<rparr>))
   \<and> payload (build_call L uid p) = remove_nones L (snake_to_camel_case L (asdict p))"
proof -
  have "sent_checked L P (wire (session_of (start L es (ChargePoint i))))"
    if "\<And>j. P (remove_nones L j)" for P
  proof -
    have "sent_checked L P (wire (ChargePoint i))" by (simp add: ChargePoint_def)
    from start_checked [of P L, OF that this] show ?thesis .
  qed
  then show ?thesis
    by (simp add: send_payload_def payload_build_call)
qed

theorem sent_calls_checked_witness:
  "sent_checked ocpp no_null_keys
     (wire (session_of (start ocpp [pass ''a'' 1 300 ''W'', pass ''b'' 2 250 ''A'',
        pass ''c'' 3 100 ''kW'', pass ''d'' 4 100 ''W''] (ChargePoint ''cp1''))))
   \<and> sent_checked ocpp null_free
     (wire (session_of (start ocpp [pass ''a'' 1 300 ''W'', pass ''b'' 2 250 ''A'',
        pass ''c'' 3 100 ''kW'', pass ''d'' 4 100 ''W''] (ChargePoint ''cp1''))))
   \<and> payload (build_call ocpp ''a-1'' ClearChargingProfilePayload) = JObj []
   \<and> send_payload ocpp ''c-2'' True
        (SetChargingProfilePayload 0
           (cs_charging_profiles ''2024-05-01T12:00:00'' 240 (JStr ''kW'')))
        (ChargePoint ''cp1'') = Inl (ValidationError, ChargePoint ''cp1'')"
proof -
  have h1: "\<forall>j. no_null_keys (remove_nones ocpp j)"
    by (simp add: ocpp_def no_null_keys_drop_nones)
  have h2: "\<forall>j. null_free (remove_nones ocpp j)"
    by (simp add: ocpp_def null_free_drop_nones)
  have c: "camel_keys (asdict ClearChargingProfilePayload) =
      JObj [(''id'', JNull), (''connectorId'', JNull), (''chargingProfilePurpose'', JNull),
            (''stackLevel'', JNull)]"
    by code_simp
  have v: "\<not> validate_payload ocpp (build_call ocpp ''c-2''
       (SetChargingProfilePayload 0
          (cs_charging_profiles ''2024-05-01T12:00:00'' 240 (JStr ''kW''))))"
    by code_simp
  show ?thesis
    using sent_calls_checked [of ocpp "[pass ''a'' 1 300 ''W'', pass ''b'' 2 250 ''A'',
        pass ''c'' 3 100 ''kW'', pass ''d'' 4 100 ''W'']" "''cp1''" "''a-1''" True
        ClearChargingProfilePayload "ChargePoint ''cp1''"]
      sent_calls_checked [of ocpp "[]" "''cp1''" "''c-2''" True
        "SetChargingProfilePayload 0
           (cs_charging_profiles ''2024-05-01T12:00:00'' 240 (JStr ''kW''))"
        "ChargePoint ''cp1''"] h1 h2 v
    by (simp add: ocpp_def c)
qed

section \<open>Reading the inverter\<close>













end
